theory Spec2Isabelle
  imports Complex_Main "HOL-Library.Sublist"
begin

section \<open>Data model of the bulk sender (src/src/index.ts, lines 8-43)\<close>

text \<open>
  The interfaces of \<^verbatim>\<open>index.ts\<close> become records. Optional fields (\<^verbatim>\<open>media?\<close>,
  \<^verbatim>\<open>error?\<close>, \<^verbatim>\<open>messageId?\<close>, \<^verbatim>\<open>endTime?\<close>) are options. Numbers are
  integers. The string-literal unions are datatypes; the parameter types
  \<^verbatim>\<open>'success' | 'failed'\<close> and \<^verbatim>\<open>'completed' | 'interrupted'\<close> are sub-unions of the
  field types, so they are datatypes of their own that the field types embed.
  The field \<^verbatim>\<open>id\<close> is called \<open>session_id\<close>, and the fields \<^verbatim>\<open>n\<close>, \<^verbatim>\<open>min\<close>,
  \<^verbatim>\<open>max\<close> of a delay rule are called \<open>rule_n\<close>, \<open>rule_min\<close>, \<open>rule_max\<close>, because
  the source's names are constants of HOL.
\<close>

record Contact =
  name :: string
  phone :: string

record MessageTemplate =
  name :: string
  content :: string
  media :: "string list option"

datatype SendOutcome = success | failed

datatype ResultStatus = outcome SendOutcome | pending

record BulkMessageResult =
  contact :: Contact
  template :: "MessageTemplate option"
  status :: ResultStatus
  timestamp :: string
  error :: "string option"
  messageId :: "string option"

text \<open>
  The field \<open>template\<close> is an option because the driver stores \<^verbatim>\<open>undefined\<close> there when
  the random pick falls outside the template array (line 1008 with an empty array, then
  line 1046).
\<close>

datatype FinalStatus = completed | interrupted

datatype SessionStatus = running | final FinalStatus

text \<open>
  A delay rule is any-typed in the source (\<^verbatim>\<open>optionalDelays: any[]\<close>); the driver tests
  for the key \<^verbatim>\<open>everyNMessages\<close> before it reads it, so a rule without that key is a
  constructor of its own.
\<close>

datatype DelayRule = everyNMessages (rule_n: int) (rule_min: int) (rule_max: int) | otherRule

text \<open>
  The \<^verbatim>\<open>messaging\<close> section of the configuration (src/unnamed/part_001, lines 10-23).
\<close>

record Messaging =
  defaultMinDelay :: int
  defaultMaxDelay :: int
  quickBulkMinDelay :: int
  quickBulkMaxDelay :: int
  maxRetries :: int
  optionalDelays :: "DelayRule list"

record DelaySettings =
  minDelay :: int
  maxDelay :: int
  optionalDelays :: "DelayRule list"

record BulkMessageSession =
  session_id :: string
  startTime :: string
  endTime :: "string option"
  totalContacts :: int
  completedContacts :: int
  failedContacts :: int
  pendingContacts :: int
  results :: "BulkMessageResult list"
  status :: SessionStatus
  delaySettings :: DelaySettings

section \<open>Phone normalisation (formatPhoneNumber, lines 1108-1123)\<close>

text \<open>
  \<^verbatim>\<open>phone.replace(/\D/g, '')\<close> keeps exactly the characters \<^verbatim>\<open>0\<close> to \<^verbatim>\<open>9\<close>;
  \<^verbatim>\<open>startsWith(p)\<close> compares the first \<^verbatim>\<open>p.length\<close> characters; \<^verbatim>\<open>substring(1)\<close>
  drops the first character.
\<close>

definition isDigit :: "char \<Rightarrow> bool" where
  "isDigit c = (c \<in> set ''0123456789'')"

definition startsWith :: "string \<Rightarrow> string \<Rightarrow> bool" where
  "startsWith s p = (take (length p) s = p)"

definition formatPhoneNumber :: "string \<Rightarrow> string" where
  "formatPhoneNumber ph =
     (let cleanNumber = filter isDigit ph
      in if startsWith cleanNumber ''0'' then ''62'' @ drop 1 cleanNumber @ ''@c.us''
         else if startsWith cleanNumber ''62'' then cleanNumber @ ''@c.us''
         else ''62'' @ cleanNumber @ ''@c.us'')"

text \<open>
  The rule as the specification words it, for comparison with the code: strip the
  non-digits; a leading \<^verbatim>\<open>0\<close> is replaced by \<^verbatim>\<open>62\<close>; a leading \<^verbatim>\<open>62\<close> is kept;
  otherwise \<^verbatim>\<open>62\<close> is put in front; the suffix \<^verbatim>\<open>@c.us\<close> is appended.
\<close>

fun spec_prefix62 :: "string \<Rightarrow> string" where
  "spec_prefix62 (c # rest) =
     (if c = CHR ''0'' then ''62'' @ rest
      else if c = CHR ''6'' \<and> (case rest of [] \<Rightarrow> False | d # _ \<Rightarrow> d = CHR ''2'') then c # rest
      else ''62'' @ c # rest)"
| "spec_prefix62 [] = ''62''"

definition spec_normalize :: "string \<Rightarrow> string" where
  "spec_normalize ph = spec_prefix62 (filter isDigit ph) @ ''@c.us''"

section \<open>The environment and the sender's state\<close>

text \<open>
  Everything the code obtains from outside is an oracle of the record \<open>World\<close>, indexed by
  the number of the environment call (\<open>ticks\<close> in the state) and by the call's arguments:
  \<^verbatim>\<open>Math.random()\<close> (a real number; the code relies on it lying in [0, 1)),
  \<^verbatim>\<open>new Date().toISOString()\<close>, the string built by \<^verbatim>\<open>generateSessionId\<close>, the
  Messenger (\<^verbatim>\<open>client.sendMessage\<close> with a text or with a media file; \<open>None\<close> when the
  promise resolves, \<open>Some msg\<close> when it rejects with an error of that message), and the
  file system (\<^verbatim>\<open>fs.access\<close> of a media file; \<^verbatim>\<open>fs.mkdir\<close> and \<^verbatim>\<open>fs.writeFile\<close> of
  a session file, \<open>False\<close> when one of them throws).
\<close>

record World =
  mathRandom :: "nat \<Rightarrow> real"
  dateNow :: "nat \<Rightarrow> string"
  newId :: "nat \<Rightarrow> string"
  clientSendText :: "nat \<Rightarrow> string \<Rightarrow> string \<Rightarrow> string option"
  clientSendMedia :: "nat \<Rightarrow> string \<Rightarrow> string \<Rightarrow> string \<Rightarrow> string option"
  fsAccess :: "nat \<Rightarrow> string \<Rightarrow> bool"
  fsWrite :: "nat \<Rightarrow> string \<Rightarrow> bool"

text \<open>
  What the code does to the outside is recorded in order in the \<open>journal\<close>: each call of
  the Messenger and each \<^verbatim>\<open>setTimeout\<close> wait, in seconds.
\<close>

datatype Event = SendText string string | SendMedia string string string | Wait int

text \<open>
  The fields of class \<^verbatim>\<open>WhatsAppSender\<close> that the session engine reads or writes, the
  directory \<^verbatim>\<open>data/results\<close> as a map from session id to the snapshot last written to
  \<^verbatim>\<open><id>.json\<close>, and two history variables that no modelled code reads: the
  \<open>journal\<close>, and \<open>detached\<close>, the session object as it was when
  \<^verbatim>\<open>this.currentSession = null\<close> last dropped it (the object lives on in the caller).
\<close>

record WhatsAppSender =
  contacts :: "Contact list"
  messageTemplates :: "MessageTemplate list"
  messaging :: Messaging
  currentSession :: "BulkMessageSession option"
  files :: "string \<rightharpoonup> BulkMessageSession"
  journal :: "Event list"
  detached :: "BulkMessageSession option"
  ticks :: nat

definition tick :: "WhatsAppSender \<Rightarrow> WhatsAppSender" where
  "tick st = st\<lparr>ticks := Suc (ticks st)\<rparr>"

section \<open>Session state machine (lines 332-416)\<close>

text \<open>
  \<^verbatim>\<open>saveSessionResults\<close> (lines 403-416): nothing without a current session; otherwise
  the full snapshot is written to the session's file, and a failure is caught and logged.
\<close>

definition saveSessionResults :: "World \<Rightarrow> WhatsAppSender \<Rightarrow> WhatsAppSender" where
  "saveSessionResults w st =
     (case currentSession st of
        None \<Rightarrow> st
      | Some s \<Rightarrow>
          if fsWrite w (ticks st) (session_id s)
          then (tick st)\<lparr>files := (files st)(session_id s \<mapsto> s)\<rparr>
          else tick st)"

text \<open>\<^verbatim>\<open>createNewSession\<close> (lines 332-348); the session it returns is the current one.\<close>

definition createNewSession :: "World \<Rightarrow> int \<Rightarrow> DelaySettings \<Rightarrow> WhatsAppSender \<Rightarrow> WhatsAppSender" where
  "createNewSession w count ds st =
     (let sid = newId w (ticks st);
          st1 = tick st;
          start = dateNow w (ticks st1);
          st2 = tick st1;
          session = \<lparr>session_id = sid, startTime = start, endTime = None,
                     totalContacts = count, completedContacts = 0, failedContacts = 0,
                     pendingContacts = count, results = [], status = running,
                     delaySettings = ds\<rparr>
      in saveSessionResults w (st2\<lparr>currentSession := Some session\<rparr>))"

text \<open>\<^verbatim>\<open>updateSessionProgress\<close> (lines 350-373), the specification's \<^verbatim>\<open>recordOutcome\<close>.\<close>

definition updateSessionProgress ::
  "World \<Rightarrow> Contact \<Rightarrow> MessageTemplate option \<Rightarrow> SendOutcome \<Rightarrow> string option \<Rightarrow> string option
    \<Rightarrow> WhatsAppSender \<Rightarrow> WhatsAppSender" where
  "updateSessionProgress w c t oc err mid st =
     (case currentSession st of
        None \<Rightarrow> st
      | Some s \<Rightarrow>
          let result = \<lparr>contact = c, template = t, status = outcome oc,
                        timestamp = dateNow w (ticks st), error = err, messageId = mid\<rparr>;
              s1 = s\<lparr>results := results s @ [result]\<rparr>;
              s2 = (case oc of
                      success \<Rightarrow> s1\<lparr>completedContacts := completedContacts s1 + 1,
                                      pendingContacts := pendingContacts s1 - 1\<rparr>
                    | failed \<Rightarrow> s1\<lparr>failedContacts := failedContacts s1 + 1,
                                     pendingContacts := pendingContacts s1 - 1\<rparr>)
          in saveSessionResults w ((tick st)\<lparr>currentSession := Some s2\<rparr>))"

text \<open>
  \<^verbatim>\<open>completeSession\<close> (lines 375-397): sets the status and the end time, saves, prints
  the summary (not modelled) and drops the reference.
\<close>

definition completeSession :: "World \<Rightarrow> FinalStatus \<Rightarrow> WhatsAppSender \<Rightarrow> WhatsAppSender" where
  "completeSession w fs st =
     (case currentSession st of
        None \<Rightarrow> st
      | Some s \<Rightarrow>
          let s1 = s\<lparr>BulkMessageSession.status := final fs, endTime := Some (dateNow w (ticks st))\<rparr>;
              st1 = saveSessionResults w ((tick st)\<lparr>currentSession := Some s1\<rparr>)
          in st1\<lparr>currentSession := None, detached := Some s1\<rparr>)"

definition hasCurrentSession :: "WhatsAppSender \<Rightarrow> bool" where
  "hasCurrentSession st =
     (case currentSession st of None \<Rightarrow> False | Some s \<Rightarrow> BulkMessageSession.status s = running)"

text \<open>
  The signal handler \<^verbatim>\<open>gracefulShutdown\<close> (lines 1387-1400), up to the destruction of
  the client and the exit of the process.
\<close>

definition gracefulShutdown :: "World \<Rightarrow> WhatsAppSender \<Rightarrow> WhatsAppSender" where
  "gracefulShutdown w st = (if hasCurrentSession st then completeSession w interrupted st else st)"

section \<open>Bulk send driver (lines 299-325 and 995-1049)\<close>

text \<open>
  \<^verbatim>\<open>Math.floor(Math.random() * (max - min + 1)) + min\<close>, for the value \<open>u\<close> that
  \<^verbatim>\<open>Math.random()\<close> returned.
\<close>

definition randomInt :: "real \<Rightarrow> int \<Rightarrow> int \<Rightarrow> int" where
  "randomInt u mn mx = \<lfloor>u * of_int (mx - mn + 1)\<rfloor> + mn"

text \<open>
  \<^verbatim>\<open>this.messageTemplates[Math.floor(Math.random() * this.messageTemplates.length)]\<close>
  (line 1008): an index outside the array reads \<^verbatim>\<open>undefined\<close>.
\<close>

definition pickTemplate :: "real \<Rightarrow> MessageTemplate list \<Rightarrow> MessageTemplate option" where
  "pickTemplate u ts =
     (let k = \<lfloor>u * of_int (int (length ts))\<rfloor>
      in if 0 \<le> k \<and> k < int (length ts) then Some (ts ! nat k) else None)"

definition sleep :: "int \<Rightarrow> WhatsAppSender \<Rightarrow> WhatsAppSender" where
  "sleep secs st = st\<lparr>journal := journal st @ [Wait secs]\<rparr>"

text \<open>
  \<^verbatim>\<open>sendMediaMessage\<close> (lines 299-325) returns the message of the error it throws, if
  any. Only the first media file is sent, with the template's content as caption; the
  oracle \<open>clientSendMedia\<close> stands for reading the file and sending it.
\<close>

definition sendMediaMessage ::
  "World \<Rightarrow> string \<Rightarrow> MessageTemplate \<Rightarrow> WhatsAppSender \<Rightarrow> string option \<times> WhatsAppSender" where
  "sendMediaMessage w ph t st =
     (case media t of
        None \<Rightarrow> (Some ''No media files in template'', st)
      | Some [] \<Rightarrow> (Some ''No media files in template'', st)
      | Some (mediaPath # _) \<Rightarrow>
          if \<not> fsAccess w (ticks st) mediaPath
          then (Some (''Media file not found: '' @ mediaPath), tick st)
          else (let st1 = tick st
                in (clientSendMedia w (ticks st1) ph mediaPath (content t),
                    (tick st1)\<lparr>journal := journal st1 @ [SendMedia ph mediaPath (content t)]\<rparr>)))"

text \<open>
  Lines 1008-1019 of the loop body: the random template, the normalised address and the
  call of the Messenger. The result is the template picked, the message of the error
  thrown inside the \<^verbatim>\<open>try\<close> block (if any) and the new state. With no template picked,
  reading \<^verbatim>\<open>randomTemplate.name\<close> on line 1012 throws a TypeError before anything is
  sent; the text of its message is the JavaScript engine's.
\<close>

definition trySend ::
  "World \<Rightarrow> Contact \<Rightarrow> WhatsAppSender \<Rightarrow> MessageTemplate option \<times> string option \<times> WhatsAppSender" where
  "trySend w c st =
     (let randomTemplate = pickTemplate (mathRandom w (ticks st)) (messageTemplates st);
          st1 = tick st
      in case randomTemplate of
           None \<Rightarrow> (None, Some ''Cannot read properties of undefined'', st1)
         | Some t \<Rightarrow>
             let formattedPhone = formatPhoneNumber (phone c)
             in if (case media t of None \<Rightarrow> False | Some m \<Rightarrow> length m > 0)
                then (let (e, st2) = sendMediaMessage w formattedPhone t st1 in (Some t, e, st2))
                else (Some t, clientSendText w (ticks st1) formattedPhone (content t),
                      (tick st1)\<lparr>journal := journal st1 @ [SendText formattedPhone (content t)]\<rparr>))"

text \<open>
  Lines 1030-1041: the rules are tried in the order of the array, and the first one whose
  \<^verbatim>\<open>n\<close> divides \<^verbatim>\<open>i + 1\<close> is waited, then the loop over the rules is left
  (\<^verbatim>\<open>break\<close>). JavaScript's \<^verbatim>\<open>(i + 1) % n === 0\<close> and HOL's \<open>mod\<close> agree on
  whether the remainder is zero for every integer \<^verbatim>\<open>n\<close>: for \<^verbatim>\<open>n = 0\<close> the source
  compares NaN with 0 (false) and HOL has \<open>(i + 1) mod 0 = i + 1\<close>, which is positive.
\<close>

fun applyOptionalDelay :: "World \<Rightarrow> nat \<Rightarrow> DelayRule list \<Rightarrow> WhatsAppSender \<Rightarrow> WhatsAppSender" where
  "applyOptionalDelay w i [] st = st"
| "applyOptionalDelay w i (otherRule # rest) st = applyOptionalDelay w i rest st"
| "applyOptionalDelay w i (everyNMessages n mn mx # rest) st =
     (if (int i + 1) mod n = 0
      then sleep (randomInt (mathRandom w (ticks st)) mn mx) (tick st)
      else applyOptionalDelay w i rest st)"

text \<open>
  Lines 1024-1042, reached only after a send that succeeded: when this was not the last
  contact, the base delay is drawn and waited, and after it the optional delay.
\<close>

definition delayAfterSend ::
  "World \<Rightarrow> nat \<Rightarrow> nat \<Rightarrow> DelaySettings \<Rightarrow> WhatsAppSender \<Rightarrow> WhatsAppSender" where
  "delayAfterSend w len i ds st =
     (if int i < int len - 1
      then (let randomDelay = randomInt (mathRandom w (ticks st)) (minDelay ds) (maxDelay ds);
                st1 = sleep randomDelay (tick st)
            in applyOptionalDelay w i (optionalDelays ds) st1)
      else st)"

text \<open>
  The body of the loop for contact \<open>c\<close> at index \<open>i\<close> of \<open>len\<close> contacts, after the
  interruption check (lines 1005-1047): the \<^verbatim>\<open>try\<close> block records the success and then
  waits; the \<^verbatim>\<open>catch\<close> block records the failure.
\<close>

definition processContact ::
  "World \<Rightarrow> nat \<Rightarrow> DelaySettings \<Rightarrow> nat \<Rightarrow> Contact \<Rightarrow> WhatsAppSender \<Rightarrow> WhatsAppSender" where
  "processContact w len ds i c st =
     (case trySend w c st of
        (t, None, st1) \<Rightarrow>
          delayAfterSend w len i ds (updateSessionProgress w c t success None None st1)
      | (t, Some errorMessage, st1) \<Rightarrow>
          updateSessionProgress w c t failed (Some errorMessage) None st1)"

definition interruptionDetected :: "WhatsAppSender \<Rightarrow> bool" where
  "interruptionDetected st =
     (case currentSession st of
        None \<Rightarrow> False
      | Some s \<Rightarrow> BulkMessageSession.status s = final interrupted)"

text \<open>
  The \<^verbatim>\<open>for\<close> loop of \<^verbatim>\<open>sendBulkMessagesInternal\<close> (lines 998-1048), from index \<open>i\<close>
  on: \<open>cs\<close> are the contacts at the indices \<open>i\<close>, \<open>i + 1\<close>, ... of an array of \<open>len\<close>
  contacts. The \<^verbatim>\<open>return\<close> on line 1002 ends the recursion. Nothing in the loop
  changes the status of the session; only the signal handler, which can run while the
  loop awaits, sets it to interrupted. The model runs the loop without that interleaving,
  so the check of line 1000 sees the status the loop was entered with.
\<close>

fun sendLoop ::
  "World \<Rightarrow> nat \<Rightarrow> DelaySettings \<Rightarrow> nat \<Rightarrow> Contact list \<Rightarrow> WhatsAppSender \<Rightarrow> WhatsAppSender" where
  "sendLoop w len ds i [] st = st"
| "sendLoop w len ds i (c # cs) st =
     (if interruptionDetected st then st
      else sendLoop w len ds (Suc i) cs (processContact w len ds i c st))"

definition sendBulkMessagesInternal ::
  "World \<Rightarrow> Contact list \<Rightarrow> DelaySettings \<Rightarrow> WhatsAppSender \<Rightarrow> WhatsAppSender" where
  "sendBulkMessagesInternal w cs ds st = sendLoop w (length cs) ds 0 cs st"

section \<open>Entry points (lines 941-993, 1051-1106, 550-605)\<close>

text \<open>
  \<^verbatim>\<open>sendBulkMessages\<close>: \<open>minD\<close> and \<open>maxD\<close> are the answers to the two prompts.
  On data of the declared types nothing inside \<^verbatim>\<open>sendBulkMessagesInternal\<close> throws
  past its own \<^verbatim>\<open>catch\<close>, so the \<^verbatim>\<open>catch\<close> block of lines 989-992 is never
  entered.
\<close>

definition sendBulkMessages :: "World \<Rightarrow> int \<Rightarrow> int \<Rightarrow> WhatsAppSender \<Rightarrow> WhatsAppSender" where
  "sendBulkMessages w minD maxD st =
     (if length (contacts st) = 0 then st
      else if length (messageTemplates st) = 0 then st
      else if maxD \<le> minD then st
      else (let ds = \<lparr>minDelay = minD, maxDelay = maxD,
                       optionalDelays = Messaging.optionalDelays (messaging st)\<rparr>;
                st1 = createNewSession w (int (length (contacts st))) ds st;
                st2 = sendBulkMessagesInternal w (contacts st1) ds st1
            in completeSession w completed st2))"

text \<open>\<^verbatim>\<open>quickBulkSend\<close>: \<open>confirm\<close> is the answer to the confirmation prompt.\<close>

definition quickBulkSend :: "World \<Rightarrow> bool \<Rightarrow> WhatsAppSender \<Rightarrow> WhatsAppSender" where
  "quickBulkSend w confirm st =
     (if length (contacts st) = 0 then st
      else if length (messageTemplates st) = 0 then st
      else if \<not> confirm then st
      else (let ds = \<lparr>minDelay = quickBulkMinDelay (messaging st),
                       maxDelay = quickBulkMaxDelay (messaging st),
                       optionalDelays = Messaging.optionalDelays (messaging st)\<rparr>;
                st1 = createNewSession w (int (length (contacts st))) ds st;
                st2 = sendBulkMessagesInternal w (contacts st1) ds st1
            in completeSession w completed st2))"

text \<open>Lines 592-593 of \<^verbatim>\<open>resumeSession\<close>: the contacts whose phone no result records.\<close>

definition remainingContacts :: "BulkMessageSession \<Rightarrow> Contact list \<Rightarrow> Contact list" where
  "remainingContacts session cs =
     (let processedContacts = set (map (\<lambda>r. phone (contact r)) (results session))
      in filter (\<lambda>c. phone c \<notin> processedContacts) cs)"

text \<open>
  \<^verbatim>\<open>resumeSession\<close> (lines 584-605): the session passed in becomes the current session
  and its status is set to \<^verbatim>\<open>running\<close>.
\<close>

definition resumeSession :: "World \<Rightarrow> BulkMessageSession \<Rightarrow> WhatsAppSender \<Rightarrow> WhatsAppSender" where
  "resumeSession w session st =
     (let session1 = session\<lparr>BulkMessageSession.status := running\<rparr>;
          st1 = st\<lparr>currentSession := Some session1\<rparr>;
          remaining = remainingContacts session1 (contacts st1)
      in if length remaining = 0 then completeSession w completed st1
         else sendBulkMessagesInternal w remaining (delaySettings session1) st1)"

text \<open>
  \<^verbatim>\<open>resumeInterruptedSession\<close> (lines 550-582): the sessions are read back from their
  files, those with status \<^verbatim>\<open>interrupted\<close> are offered, and \<open>choice\<close> is the id of the
  one the user picks (\<open>None\<close> for "Start new session"). An id that is not on offer cannot
  be picked.
\<close>

definition resumeInterruptedSession ::
  "World \<Rightarrow> string option \<Rightarrow> WhatsAppSender \<Rightarrow> WhatsAppSender" where
  "resumeInterruptedSession w choice st =
     (case choice of
        None \<Rightarrow> st
      | Some sid \<Rightarrow>
          (case files st sid of
             None \<Rightarrow> st
           | Some s \<Rightarrow>
               if BulkMessageSession.status s = final interrupted then resumeSession w s st
               else st))"

section \<open>Notions used to state the results\<close>

text \<open>The waits of a journal, in seconds, and the addresses of its Messenger calls.\<close>

definition waits :: "Event list \<Rightarrow> int list" where
  "waits evs = concat (map (\<lambda>e. case e of Wait secs \<Rightarrow> [secs] | _ \<Rightarrow> []) evs)"

definition addresses :: "Event list \<Rightarrow> string list" where
  "addresses evs =
     concat (map (\<lambda>e. case e of SendText a _ \<Rightarrow> [a] | SendMedia a _ _ \<Rightarrow> [a] | Wait _ \<Rightarrow> []) evs)"

text \<open>The test of line 1032 for the contact at index \<open>i\<close>.\<close>

definition ruleMatches :: "nat \<Rightarrow> DelayRule \<Rightarrow> bool" where
  "ruleMatches i r = (case r of everyNMessages n _ _ \<Rightarrow> (int i + 1) mod n = 0 | otherRule \<Rightarrow> False)"

text \<open>The counters of a session agree with each other and with its result log.\<close>

definition countersConsistent :: "BulkMessageSession \<Rightarrow> bool" where
  "countersConsistent s =
     (completedContacts s + failedContacts s + pendingContacts s = totalContacts s
      \<and> completedContacts s =
          int (length (filter (\<lambda>r. BulkMessageResult.status r = outcome success) (results s)))
      \<and> failedContacts s =
          int (length (filter (\<lambda>r. BulkMessageResult.status r = outcome failed) (results s)))
      \<and> pendingContacts s = totalContacts s - int (length (results s)))"

text \<open>Two values of one session object between which only results and counters changed.\<close>

definition sameSession :: "BulkMessageSession \<Rightarrow> BulkMessageSession \<Rightarrow> bool" where
  "sameSession s s' =
     (session_id s' = session_id s \<and> startTime s' = startTime s \<and> endTime s' = endTime s
      \<and> totalContacts s' = totalContacts s \<and> delaySettings s' = delaySettings s
      \<and> BulkMessageSession.status s' = BulkMessageSession.status s)"

text \<open>A sequence of calls of \<^verbatim>\<open>updateSessionProgress\<close>, each with its five arguments.\<close>

type_synonym OutcomeCall =
  "Contact \<times> MessageTemplate option \<times> SendOutcome \<times> string option \<times> string option"

fun recordOutcomes :: "World \<Rightarrow> OutcomeCall list \<Rightarrow> WhatsAppSender \<Rightarrow> WhatsAppSender" where
  "recordOutcomes w [] st = st"
| "recordOutcomes w ((c, t, oc, e, m) # rest) st =
     recordOutcomes w rest (updateSessionProgress w c t oc e m st)"

text \<open>A result records a call when it carries the call's five arguments.\<close>

definition recorded :: "BulkMessageResult \<Rightarrow> OutcomeCall \<Rightarrow> bool" where
  "recorded r call =
     (case call of (c, t, oc, e, m) \<Rightarrow>
        contact r = c \<and> template r = t \<and> BulkMessageResult.status r = outcome oc
        \<and> error r = e \<and> messageId r = m)"

subsection \<open>Concrete inputs\<close>

text \<open>
  A world in which \<^verbatim>\<open>Math.random()\<close> always returns 0 (every draw is the lower end of its
  range), every send is delivered and every write succeeds; the same world in which the
  Messenger rejects one address; one text template; the rule set of the README
  (every 5 messages 20-30 s, every 10 messages 30-60 s, base 3-8 s); a sender with its
  contacts loaded and no session; twelve contacts with distinct phones.
\<close>

definition calmWorld :: World where
  "calmWorld = \<lparr>mathRandom = (\<lambda>_. 0), dateNow = (\<lambda>_. ''2025-08-13T10:00:00.000Z''),
     newId = (\<lambda>_. ''session-1''), clientSendText = (\<lambda>_ _ _. None),
     clientSendMedia = (\<lambda>_ _ _ _. None), fsAccess = (\<lambda>_ _. True), fsWrite = (\<lambda>_ _. True)\<rparr>"

definition blockingWorld :: "string \<Rightarrow> World" where
  "blockingWorld a =
     calmWorld\<lparr>clientSendText := (\<lambda>_ b _. if b = a then Some ''blocked'' else None)\<rparr>"

definition welcomeTemplate :: MessageTemplate where
  "welcomeTemplate = \<lparr>MessageTemplate.name = ''Welcome'', content = ''Hello!'', media = None\<rparr>"

definition person :: "string \<Rightarrow> string \<Rightarrow> Contact" where
  "person nm ph = \<lparr>Contact.name = nm, phone = ph\<rparr>"

definition readmeMessaging :: Messaging where
  "readmeMessaging = \<lparr>defaultMinDelay = 3, defaultMaxDelay = 8, quickBulkMinDelay = 2,
     quickBulkMaxDelay = 6, maxRetries = 3,
     optionalDelays = [everyNMessages 5 20 30, everyNMessages 10 30 60]\<rparr>"

definition sender :: "Contact list \<Rightarrow> Messaging \<Rightarrow> WhatsAppSender" where
  "sender cs m = \<lparr>contacts = cs, messageTemplates = [welcomeTemplate], messaging = m,
     currentSession = None, files = Map.empty, journal = [], detached = None, ticks = 0\<rparr>"

definition twelve :: "Contact list" where
  "twelve = map (\<lambda>k. person ''c'' (''0812'' @ [char_of (k + 48)])) [0, 1, 2, 3, 4, 5, 6, 7, 8, 9 :: nat]
     @ [person ''c'' ''081310'', person ''c'' ''081311'']"

text \<open>
  A bulk run over the contacts \<open>c # cs\<close> that is stopped by the signal handler at the
  end of the wait after the first contact: the session is created as
  \<^verbatim>\<open>sendBulkMessages\<close> creates it, the first iteration of the loop runs, and
  \<^verbatim>\<open>gracefulShutdown\<close> finalises the session as interrupted.
\<close>

definition interruptedRun :: "Contact \<Rightarrow> Contact list \<Rightarrow> WhatsAppSender" where
  "interruptedRun c cs =
     (let ds = \<lparr>minDelay = 3, maxDelay = 8, optionalDelays = []\<rparr>;
          st1 = createNewSession calmWorld (int (length (c # cs))) ds (sender (c # cs) readmeMessaging)
      in gracefulShutdown calmWorld (processContact calmWorld (length (c # cs)) ds 0 c st1))"

text \<open>
  The timestamp of \<open>calmWorld\<close>; the session that \<open>interruptedRun c cs\<close> leaves in
  its file when \<open>n\<close> contacts were loaded; three contacts, two of them with one phone.
\<close>

definition stamp :: string where
  "stamp = ''2025-08-13T10:00:00.000Z''"

definition interruptedSession :: "Contact \<Rightarrow> int \<Rightarrow> BulkMessageSession" where
  "interruptedSession c n =
     \<lparr>session_id = ''session-1'', startTime = stamp, endTime = Some stamp,
      totalContacts = n, completedContacts = 1, failedContacts = 0, pendingContacts = n - 1,
      results = [\<lparr>contact = c, template = Some welcomeTemplate, status = outcome success,
                  timestamp = stamp, error = None, messageId = None\<rparr>],
      status = final interrupted,
      delaySettings = \<lparr>minDelay = 3, maxDelay = 8, optionalDelays = []\<rparr>\<rparr>"

definition alice :: Contact where "alice = person ''Alice'' ''081234567890''"
definition bob :: Contact where "bob = person ''Bob'' ''081234567891''"
definition aliceAgain :: Contact where "aliceAgain = person ''Alice (work)'' ''081234567890''"

section \<open>Phone normalisation: results\<close>

lemma formatPhoneNumber_refines_spec: "formatPhoneNumber ph = spec_normalize ph"
proof (cases "filter isDigit ph")
  case Nil
  then show ?thesis
    by (simp add: formatPhoneNumber_def spec_normalize_def startsWith_def)
next
  case (Cons c rest)
  then show ?thesis
    by (cases rest) (auto simp: formatPhoneNumber_def spec_normalize_def startsWith_def Let_def)
qed

text \<open>
  C3. For every input string the code's normalisation is the rule of the specification
  (strip the non-digits; leading 0 becomes 62; leading 62 stays; otherwise 62 is put in
  front; \<^verbatim>\<open>@c.us\<close> is appended), and the three examples of the specification come out as
  stated.
\<close>

theorem C3_formatPhoneNumber:
  "formatPhoneNumber ph = spec_normalize ph
   \<and> formatPhoneNumber ''081234567890'' = ''6281234567890@c.us''
   \<and> formatPhoneNumber ''81234567890'' = ''6281234567890@c.us''
   \<and> formatPhoneNumber ''6281234567890'' = ''6281234567890@c.us''"
proof (intro conjI)
  show "formatPhoneNumber ph = spec_normalize ph"
    by (rule formatPhoneNumber_refines_spec)
  show "formatPhoneNumber ''081234567890'' = ''6281234567890@c.us''"
    by (simp add: formatPhoneNumber_def startsWith_def isDigit_def)
  show "formatPhoneNumber ''81234567890'' = ''6281234567890@c.us''"
    by (simp add: formatPhoneNumber_def startsWith_def isDigit_def)
  show "formatPhoneNumber ''6281234567890'' = ''6281234567890@c.us''"
    by (simp add: formatPhoneNumber_def startsWith_def isDigit_def)
qed

section \<open>Frame and step lemmas of the state machine and the driver\<close>

lemma currentSession_save [simp]: "currentSession (saveSessionResults w st) = currentSession st"
  by (simp add: saveSessionResults_def tick_def split: option.splits)

lemma journal_save [simp]: "journal (saveSessionResults w st) = journal st"
  by (simp add: saveSessionResults_def tick_def split: option.splits)

lemma detached_save [simp]: "detached (saveSessionResults w st) = detached st"
  by (simp add: saveSessionResults_def tick_def split: option.splits)

lemma contacts_save [simp]: "contacts (saveSessionResults w st) = contacts st"
  by (simp add: saveSessionResults_def tick_def split: option.splits)

lemma templates_save [simp]: "messageTemplates (saveSessionResults w st) = messageTemplates st"
  by (simp add: saveSessionResults_def tick_def split: option.splits)

lemma dom_files_save:
  "dom (files (saveSessionResults w st)) \<subseteq> dom (files st) \<union> session_id ` set_option (currentSession st)"
  by (auto simp: saveSessionResults_def tick_def split: option.splits if_splits)

lemma addresses_append [simp]: "addresses (xs @ ys) = addresses xs @ addresses ys"
  by (simp add: addresses_def)

lemma waits_append [simp]: "waits (xs @ ys) = waits xs @ waits ys"
  by (simp add: waits_def)

lemma addresses_simps [simp]:
  "addresses [] = []" "addresses (Wait k # evs) = addresses evs"
  "addresses (SendText a b # evs) = a # addresses evs"
  "addresses (SendMedia a b d # evs) = a # addresses evs"
  by (simp_all add: addresses_def)

lemma waits_simps [simp]:
  "waits [] = []" "waits (Wait k # evs) = k # waits evs"
  "waits (SendText a b # evs) = waits evs"
  "waits (SendMedia a b d # evs) = waits evs"
  by (simp_all add: waits_def)

lemma applyOptionalDelay_frame [simp]:
  "currentSession (applyOptionalDelay w i rs st) = currentSession st"
  "files (applyOptionalDelay w i rs st) = files st"
  "detached (applyOptionalDelay w i rs st) = detached st"
  "messageTemplates (applyOptionalDelay w i rs st) = messageTemplates st"
  "addresses (journal (applyOptionalDelay w i rs st)) = addresses (journal st)"
  by (induction w i rs st rule: applyOptionalDelay.induct)
     (simp_all add: sleep_def tick_def)

lemma applyOptionalDelay_journal:
  "journal (applyOptionalDelay w i rs st) =
     journal st @ (case find (ruleMatches i) rs of
                     Some (everyNMessages n mn mx) \<Rightarrow> [Wait (randomInt (mathRandom w (ticks st)) mn mx)]
                   | _ \<Rightarrow> [])"
  by (induction w i rs st rule: applyOptionalDelay.induct)
     (simp_all add: sleep_def tick_def ruleMatches_def)

lemma delayAfterSend_frame [simp]:
  "currentSession (delayAfterSend w len i ds st) = currentSession st"
  "files (delayAfterSend w len i ds st) = files st"
  "detached (delayAfterSend w len i ds st) = detached st"
  "messageTemplates (delayAfterSend w len i ds st) = messageTemplates st"
  "addresses (journal (delayAfterSend w len i ds st)) = addresses (journal st)"
  by (simp_all add: delayAfterSend_def Let_def sleep_def tick_def)

lemma delayAfterSend_journal:
  "journal (delayAfterSend w len i ds st) =
     journal st @
       (if int i < int len - 1
        then Wait (randomInt (mathRandom w (ticks st)) (minDelay ds) (maxDelay ds)) #
             (case find (ruleMatches i) (optionalDelays ds) of
                Some (everyNMessages n mn mx) \<Rightarrow> [Wait (randomInt (mathRandom w (Suc (ticks st))) mn mx)]
              | _ \<Rightarrow> [])
        else [])"
  by (simp add: delayAfterSend_def Let_def applyOptionalDelay_journal sleep_def tick_def
           split: option.splits DelayRule.splits)

lemma trySend_frame:
  "trySend w c st = (t, e, st1) \<Longrightarrow>
     currentSession st1 = currentSession st \<and> files st1 = files st \<and> detached st1 = detached st
     \<and> messageTemplates st1 = messageTemplates st
     \<and> waits (journal st1) = waits (journal st)
     \<and> (addresses (journal st1) = addresses (journal st)
         \<or> addresses (journal st1) = addresses (journal st) @ [formatPhoneNumber (phone c)])"
  by (auto simp: trySend_def sendMediaMessage_def Let_def tick_def
           split: option.splits list.splits if_splits prod.splits)

lemma update_frame [simp]:
  "journal (updateSessionProgress w c t oc e m st) = journal st"
  "detached (updateSessionProgress w c t oc e m st) = detached st"
  "messageTemplates (updateSessionProgress w c t oc e m st) = messageTemplates st"
  by (simp_all add: updateSessionProgress_def Let_def tick_def split: option.splits)

lemma update_none:
  "currentSession st = None \<Longrightarrow> updateSessionProgress w c t oc e m st = st"
  by (simp add: updateSessionProgress_def)

lemma update_current:
  assumes "currentSession st = Some s"
  shows "\<exists>s'. currentSession (updateSessionProgress w c t oc e m st) = Some s'
     \<and> results s' = results s @ [\<lparr>contact = c, template = t, status = outcome oc,
                        timestamp = dateNow w (ticks st), error = e, messageId = m\<rparr>]
     \<and> totalContacts s' = totalContacts s
     \<and> BulkMessageSession.status s' = BulkMessageSession.status s
     \<and> session_id s' = session_id s
     \<and> delaySettings s' = delaySettings s
     \<and> startTime s' = startTime s
     \<and> endTime s' = endTime s
     \<and> pendingContacts s' = pendingContacts s - 1
     \<and> (countersConsistent s \<longrightarrow> countersConsistent s')"
  using assms
  by (cases oc) (auto simp: updateSessionProgress_def Let_def countersConsistent_def)

lemma update_dom_files:
  "dom (files (updateSessionProgress w c t oc e m st))
     \<subseteq> dom (files st) \<union> session_id ` set_option (currentSession st)"
  by (cases oc)
     (auto simp: updateSessionProgress_def Let_def saveSessionResults_def tick_def
           split: option.splits if_splits)

lemma processContact_session:
  assumes "currentSession st = Some s"
  shows "\<exists>s' r. currentSession (processContact w len ds i c st) = Some s'
     \<and> sameSession s s'
     \<and> results s' = results s @ [r] \<and> contact r = c
     \<and> pendingContacts s' = pendingContacts s - 1
     \<and> (countersConsistent s \<longrightarrow> countersConsistent s')"
proof -
  obtain t e st1 where ts: "trySend w c st = (t, e, st1)"
    by (cases "trySend w c st") auto
  from trySend_frame[OF ts] assms have cur: "currentSession st1 = Some s" by simp
  show ?thesis
  proof (cases e)
    case None
    from update_current[OF cur, of w c t success None None]
    show ?thesis using ts None by (auto simp: processContact_def sameSession_def)
  next
    case (Some msg)
    from update_current[OF cur, of w c t failed "Some msg" None]
    show ?thesis using ts Some by (auto simp: processContact_def sameSession_def)
  qed
qed

lemma processContact_none:
  assumes "currentSession st = None"
  shows "currentSession (processContact w len ds i c st) = None"
proof -
  obtain t e st1 where ts: "trySend w c st = (t, e, st1)"
    by (cases "trySend w c st") auto
  from trySend_frame[OF ts] assms have cur: "currentSession st1 = None" by simp
  show ?thesis using ts cur
    by (cases e) (simp_all add: processContact_def update_none)
qed

lemma processContact_frame:
  "detached (processContact w len ds i c st) = detached st"
  "messageTemplates (processContact w len ds i c st) = messageTemplates st"
  "dom (files (processContact w len ds i c st))
     \<subseteq> dom (files st) \<union> session_id ` set_option (currentSession st)"
proof -
  obtain t e st1 where ts: "trySend w c st = (t, e, st1)"
    by (cases "trySend w c st") auto
  note fr = trySend_frame[OF ts]
  show "detached (processContact w len ds i c st) = detached st"
    using ts fr by (cases e) (simp_all add: processContact_def)
  show "messageTemplates (processContact w len ds i c st) = messageTemplates st"
    using ts fr by (cases e) (simp_all add: processContact_def)
  show "dom (files (processContact w len ds i c st))
     \<subseteq> dom (files st) \<union> session_id ` set_option (currentSession st)"
  proof (cases e)
    case None
    then show ?thesis
      using ts fr update_dom_files[of w c t success None None st1]
      by (simp add: processContact_def)
  next
    case (Some msg)
    then show ?thesis
      using ts fr update_dom_files[of w c t failed "Some msg" None st1]
      by (simp add: processContact_def)
  qed
qed

lemma processContact_addresses:
  "addresses (journal (processContact w len ds i c st)) = addresses (journal st)
   \<or> addresses (journal (processContact w len ds i c st))
       = addresses (journal st) @ [formatPhoneNumber (phone c)]"
proof -
  obtain t e st1 where ts: "trySend w c st = (t, e, st1)"
    by (cases "trySend w c st") auto
  from trySend_frame[OF ts] show ?thesis
    using ts by (cases e) (auto simp: processContact_def)
qed

lemma sameSession_refl [simp]: "sameSession s s"
  by (simp add: sameSession_def)

lemma sameSession_trans: "sameSession a b \<Longrightarrow> sameSession b c \<Longrightarrow> sameSession a c"
  by (simp add: sameSession_def)

lemma sendLoop_interrupted:
  "interruptionDetected st \<Longrightarrow> sendLoop w len ds i cs st = st"
  by (cases cs) simp_all

lemma sendLoop_session:
  assumes "currentSession st = Some s" "BulkMessageSession.status s \<noteq> final interrupted"
  shows "\<exists>s' rs. currentSession (sendLoop w len ds i cs st) = Some s'
     \<and> sameSession s s'
     \<and> results s' = results s @ rs \<and> map contact rs = cs
     \<and> pendingContacts s' = pendingContacts s - int (length cs)
     \<and> (countersConsistent s \<longrightarrow> countersConsistent s')"
  using assms
proof (induction cs arbitrary: st s i)
  case Nil
  then show ?case by simp
next
  case (Cons c cs)
  from Cons.prems have ni: "\<not> interruptionDetected st"
    by (simp add: interruptionDetected_def)
  from processContact_session[OF Cons.prems(1), of w len ds i c]
  obtain s1 r where s1: "currentSession (processContact w len ds i c st) = Some s1"
    "sameSession s s1" "results s1 = results s @ [r]" "contact r = c"
    "pendingContacts s1 = pendingContacts s - 1"
    "countersConsistent s \<longrightarrow> countersConsistent s1"
    by blast
  from s1(2) Cons.prems(2) have st1: "BulkMessageSession.status s1 \<noteq> final interrupted"
    by (simp add: sameSession_def)
  from Cons.IH[OF s1(1) st1, of "Suc i"]
  obtain s' rs where s': "currentSession (sendLoop w len ds (Suc i) cs (processContact w len ds i c st)) = Some s'"
    "sameSession s1 s'" "results s' = results s1 @ rs" "map contact rs = cs"
    "pendingContacts s' = pendingContacts s1 - int (length cs)"
    "countersConsistent s1 \<longrightarrow> countersConsistent s'"
    by blast
  have "results s' = results s @ (r # rs)" "map contact (r # rs) = c # cs"
    using s1 s' by simp_all
  moreover have "sameSession s s'" using s1(2) s'(2) by (rule sameSession_trans)
  moreover have "pendingContacts s' = pendingContacts s - int (length (c # cs))"
    using s1(5) s'(5) by simp
  ultimately show ?case using ni s'(1) s1(6) s'(6) by (simp del: map_eq_Cons_conv)
qed

lemma sendLoop_frame:
  "detached (sendLoop w len ds i cs st) = detached st"
  "messageTemplates (sendLoop w len ds i cs st) = messageTemplates st"
  by (induction cs arbitrary: st i) (simp_all add: processContact_frame)

lemma sendLoop_dom_files:
  "dom (files (sendLoop w len ds i cs st))
     \<subseteq> dom (files st) \<union> session_id ` set_option (currentSession st)"
proof (induction cs arbitrary: st i)
  case Nil
  then show ?case by simp
next
  case (Cons c cs)
  show ?case
  proof (cases "interruptionDetected st")
    case True
    then show ?thesis by simp
  next
    case False
    let ?st1 = "processContact w len ds i c st"
    have a: "dom (files ?st1) \<subseteq> dom (files st) \<union> session_id ` set_option (currentSession st)"
      by (rule processContact_frame)
    have b: "session_id ` set_option (currentSession ?st1)
               \<subseteq> session_id ` set_option (currentSession st)"
    proof (cases "currentSession st")
      case None
      then show ?thesis by (simp add: processContact_none)
    next
      case (Some s)
      from processContact_session[OF Some, of w len ds i c] show ?thesis
        using Some by (auto simp: sameSession_def)
    qed
    have "dom (files (sendLoop w len ds (Suc i) cs ?st1))
            \<subseteq> dom (files st) \<union> session_id ` set_option (currentSession st)"
      using Cons.IH[of "Suc i" ?st1] a b by blast
    then show ?thesis using False by simp
  qed
qed

lemma sendLoop_addresses:
  "\<exists>xs. addresses (journal (sendLoop w len ds i cs st)) = addresses (journal st) @ xs
      \<and> subseq xs (map (\<lambda>c. formatPhoneNumber (phone c)) cs)"
proof (induction cs arbitrary: st i)
  case Nil
  then show ?case by simp
next
  case (Cons c cs)
  show ?case
  proof (cases "interruptionDetected st")
    case True
    then show ?thesis by simp
  next
    case False
    let ?st1 = "processContact w len ds i c st"
    from Cons.IH[of "Suc i" ?st1] obtain xs where
      xs: "addresses (journal (sendLoop w len ds (Suc i) cs ?st1)) = addresses (journal ?st1) @ xs"
          "subseq xs (map (\<lambda>c. formatPhoneNumber (phone c)) cs)"
      by blast
    from processContact_addresses[of w len ds i c st] show ?thesis
    proof
      assume "addresses (journal ?st1) = addresses (journal st)"
      then show ?thesis using xs False by (auto intro: subseq_Cons')
    next
      assume "addresses (journal ?st1) = addresses (journal st) @ [formatPhoneNumber (phone c)]"
      then show ?thesis using xs False
        by (intro exI[of _ "formatPhoneNumber (phone c) # xs"]) simp
    qed
  qed
qed

lemma create_frame [simp]:
  "journal (createNewSession w n ds st) = journal st"
  "detached (createNewSession w n ds st) = detached st"
  "contacts (createNewSession w n ds st) = contacts st"
  "messageTemplates (createNewSession w n ds st) = messageTemplates st"
  by (simp_all add: createNewSession_def Let_def tick_def)

lemma currentSession_create:
  "currentSession (createNewSession w n ds st) =
     Some \<lparr>session_id = newId w (ticks st), startTime = dateNow w (Suc (ticks st)), endTime = None,
           totalContacts = n, completedContacts = 0, failedContacts = 0,
           pendingContacts = n, results = [], status = running, delaySettings = ds\<rparr>"
  by (simp add: createNewSession_def Let_def tick_def)

lemma completeSession_some:
  assumes "currentSession st = Some s"
  shows "currentSession (completeSession w fs st) = None"
    and "detached (completeSession w fs st) =
           Some (s\<lparr>BulkMessageSession.status := final fs, endTime := Some (dateNow w (ticks st))\<rparr>)"
    and "journal (completeSession w fs st) = journal st"
    and "dom (files (completeSession w fs st)) \<subseteq> insert (session_id s) (dom (files st))"
  using assms
  by (auto simp: completeSession_def Let_def saveSessionResults_def tick_def split: if_splits)

lemma completeSession_none:
  "currentSession st = None \<Longrightarrow> completeSession w fs st = st"
  by (simp add: completeSession_def)

lemma freshRun_completed:
  "\<exists>s. detached (completeSession w completed
                 (sendBulkMessagesInternal w cs ds (createNewSession w (int (length cs)) ds st))) = Some s
       \<and> BulkMessageSession.status s = final completed \<and> pendingContacts s = 0
       \<and> endTime s \<noteq> None \<and> totalContacts s = int (length cs)
       \<and> map contact (results s) = cs \<and> countersConsistent s"
proof -
  let ?st1 = "createNewSession w (int (length cs)) ds st"
  let ?s0 = "\<lparr>session_id = newId w (ticks st), startTime = dateNow w (Suc (ticks st)), endTime = None,
           totalContacts = int (length cs), completedContacts = 0, failedContacts = 0,
           pendingContacts = int (length cs), results = [], status = running, delaySettings = ds\<rparr>"
  have c0: "currentSession ?st1 = Some ?s0" by (rule currentSession_create)
  have r0: "BulkMessageSession.status ?s0 \<noteq> final interrupted" by simp
  have cc0: "countersConsistent ?s0" by (simp add: countersConsistent_def)
  from sendLoop_session[OF c0 r0, of w "length cs" ds 0 cs] cc0
  obtain s' rs where s': "currentSession (sendLoop w (length cs) ds 0 cs ?st1) = Some s'"
    "sameSession ?s0 s'" "results s' = rs" "map contact rs = cs"
    "pendingContacts s' = 0" "countersConsistent s'"
    by auto
  have cur: "currentSession (sendBulkMessagesInternal w cs ds ?st1) = Some s'"
    using s'(1) by (simp add: sendBulkMessagesInternal_def)
  show ?thesis
    using completeSession_some(2)[OF cur, of w completed] s'(2-6)
    by (simp add: sameSession_def countersConsistent_def)
qed

lemma recordOutcomes_session:
  assumes "currentSession st = Some s"
  shows "\<exists>s' rs. currentSession (recordOutcomes w calls st) = Some s'
     \<and> sameSession s s'
     \<and> results s' = results s @ rs
     \<and> list_all2 recorded rs calls
     \<and> (countersConsistent s \<longrightarrow> countersConsistent s')"
  using assms
proof (induction calls arbitrary: st s)
  case Nil
  then show ?case by simp
next
  case (Cons a calls)
  obtain c t oc e m where a: "a = (c, t, oc, e, m)" by (cases a) auto
  let ?r = "\<lparr>contact = c, template = t, status = outcome oc,
                        timestamp = dateNow w (ticks st), error = e, messageId = m\<rparr>"
  from update_current[OF Cons.prems(1), of w c t oc e m]
  obtain s1 where s1: "currentSession (updateSessionProgress w c t oc e m st) = Some s1"
    "sameSession s s1" "results s1 = results s @ [?r]"
    "countersConsistent s \<longrightarrow> countersConsistent s1"
    by (auto simp: sameSession_def)
  from Cons.IH[OF s1(1)]
  obtain s' rs where s': "currentSession (recordOutcomes w calls (updateSessionProgress w c t oc e m st)) = Some s'"
    "sameSession s1 s'" "results s' = results s1 @ rs"
    "list_all2 recorded rs calls"
    "countersConsistent s1 \<longrightarrow> countersConsistent s'"
    by blast
  have 1: "currentSession (recordOutcomes w (a # calls) st) = Some s'" using s'(1) a by simp
  have 2: "results s' = results s @ (?r # rs)" using s1(3) s'(3) by simp
  have 3: "list_all2 recorded (?r # rs) (a # calls)" using s'(4) a by (simp add: recorded_def)
  have 4: "sameSession s s'" using s1(2) s'(2) by (rule sameSession_trans)
  have 5: "countersConsistent s \<longrightarrow> countersConsistent s'" using s1(4) s'(5) by blast
  show ?case using 1 2 3 4 5 by blast
qed

lemma recordOutcomes_append:
  "recordOutcomes w (xs @ ys) st = recordOutcomes w ys (recordOutcomes w xs st)"
  by (induction xs arbitrary: st) auto

section \<open>Session counters\<close>

text \<open>
  C2. On a session created by \<^verbatim>\<open>createNewSession\<close> with \<open>n\<close> contacts, after any
  sequence of calls of \<^verbatim>\<open>updateSessionProgress\<close> (the sequence is arbitrary, so this
  holds after every call): the session is still the current one and still running, the
  three counters add up to \<open>n\<close>, the completed counter is the number of results with
  status success, the failed counter the number with status failed, the pending counter
  \<open>n\<close> minus the number of results, the results are the calls in their order, and the
  results after any further calls extend the results so far.
\<close>

theorem C2_counters_consistent_after_every_call:
  "\<exists>s s2. currentSession (recordOutcomes w calls (createNewSession w n ds st)) = Some s
     \<and> totalContacts s = n \<and> BulkMessageSession.status s = running
     \<and> completedContacts s + failedContacts s + pendingContacts s = n
     \<and> completedContacts s =
          int (length (filter (\<lambda>r. BulkMessageResult.status r = outcome success) (results s)))
     \<and> failedContacts s =
          int (length (filter (\<lambda>r. BulkMessageResult.status r = outcome failed) (results s)))
     \<and> pendingContacts s = n - int (length (results s))
     \<and> list_all2 recorded (results s) calls
     \<and> currentSession (recordOutcomes w (calls @ later) (createNewSession w n ds st)) = Some s2
     \<and> prefix (results s) (results s2)"
proof -
  let ?s0 = "\<lparr>session_id = newId w (ticks st), startTime = dateNow w (Suc (ticks st)), endTime = None,
           totalContacts = n, completedContacts = 0, failedContacts = 0,
           pendingContacts = n, results = [], status = running, delaySettings = ds\<rparr>"
  let ?st0 = "createNewSession w n ds st"
  have c0: "currentSession ?st0 = Some ?s0" by (rule currentSession_create)
  have cc0: "countersConsistent ?s0" by (simp add: countersConsistent_def)
  from recordOutcomes_session[OF c0, of w calls] cc0
  obtain s rs where s: "currentSession (recordOutcomes w calls ?st0) = Some s"
    "sameSession ?s0 s" "results s = rs"
    "list_all2 recorded rs calls"
    "countersConsistent s"
    by auto
  from recordOutcomes_session[OF s(1), of w later]
  obtain s2 rs2 where s2: "currentSession (recordOutcomes w later (recordOutcomes w calls ?st0)) = Some s2"
    "results s2 = results s @ rs2"
    by blast
  have tot: "totalContacts s = n \<and> BulkMessageSession.status s = running"
    using s(2) by (simp add: sameSession_def)
  have "prefix (results s) (results s2)" using s2(2) by simp
  then show ?thesis
    using s(1,3,4,5) s2(1) tot
    by (simp add: countersConsistent_def recordOutcomes_append)
qed

section \<open>Resume planner\<close>

lemma set_remainingContacts:
  "set (remainingContacts s cs) = {c \<in> set cs. \<forall>r \<in> set (results s). phone (contact r) \<noteq> phone c}"
  by (auto simp: remainingContacts_def Let_def image_iff)

lemma resumeSession_empty:
  assumes "remainingContacts s (contacts st) = []"
  shows "currentSession (resumeSession w s st) = None"
    and "detached (resumeSession w s st) =
           Some (s\<lparr>BulkMessageSession.status := final completed,
                    endTime := Some (dateNow w (ticks st))\<rparr>)"
    and "journal (resumeSession w s st) = journal st"
    and "dom (files (resumeSession w s st)) \<subseteq> insert (session_id s) (dom (files st))"
proof -
  let ?st1 = "st\<lparr>currentSession := Some (s\<lparr>BulkMessageSession.status := running\<rparr>)\<rparr>"
  have rem: "remainingContacts (s\<lparr>BulkMessageSession.status := running\<rparr>) (contacts st) = []"
    using assms by (simp add: remainingContacts_def)
  have eq: "resumeSession w s st = completeSession w completed ?st1"
    using rem by (simp add: resumeSession_def Let_def)
  have cur: "currentSession ?st1 = Some (s\<lparr>BulkMessageSession.status := running\<rparr>)" by simp
  show "currentSession (resumeSession w s st) = None"
    using completeSession_some(1)[OF cur] eq by simp
  show "detached (resumeSession w s st) =
           Some (s\<lparr>BulkMessageSession.status := final completed,
                    endTime := Some (dateNow w (ticks st))\<rparr>)"
    using completeSession_some(2)[OF cur, of w completed] eq by simp
  show "journal (resumeSession w s st) = journal st"
    using completeSession_some(3)[OF cur, of w completed] eq by simp
  show "dom (files (resumeSession w s st)) \<subseteq> insert (session_id s) (dom (files st))"
    using completeSession_some(4)[OF cur, of w completed] eq by simp
qed

lemma resumeSession_nonempty:
  assumes "remainingContacts s (contacts st) \<noteq> []"
  shows "\<exists>s' rs. currentSession (resumeSession w s st) = Some s'
      \<and> BulkMessageSession.status s' = running \<and> session_id s' = session_id s
      \<and> startTime s' = startTime s
      \<and> endTime s' = endTime s \<and> totalContacts s' = totalContacts s
      \<and> results s' = results s @ rs
      \<and> map contact rs = remainingContacts s (contacts st)
      \<and> pendingContacts s' = pendingContacts s - int (length rs)"
    and "detached (resumeSession w s st) = detached st"
    and "dom (files (resumeSession w s st)) \<subseteq> insert (session_id s) (dom (files st))"
proof -
  let ?s1 = "s\<lparr>BulkMessageSession.status := running\<rparr>"
  let ?st1 = "st\<lparr>currentSession := Some ?s1\<rparr>"
  let ?rem = "remainingContacts s (contacts st)"
  have rem: "remainingContacts ?s1 (contacts st) = ?rem"
    by (simp add: remainingContacts_def)
  have eq: "resumeSession w s st = sendLoop w (length ?rem) (delaySettings s) 0 ?rem ?st1"
    using rem assms by (simp add: resumeSession_def Let_def sendBulkMessagesInternal_def)
  have cur: "currentSession ?st1 = Some ?s1" by simp
  have run: "BulkMessageSession.status ?s1 \<noteq> final interrupted" by simp
  from sendLoop_session[OF cur run, of w "length ?rem" "delaySettings s" 0 ?rem]
  obtain s' rs where s': "currentSession (sendLoop w (length ?rem) (delaySettings s) 0 ?rem ?st1) = Some s'"
    "sameSession ?s1 s'" "results s' = results ?s1 @ rs" "map contact rs = ?rem"
    "pendingContacts s' = pendingContacts ?s1 - int (length ?rem)"
    by blast
  have len: "length rs = length ?rem" using s'(4) by (metis length_map)
  show "\<exists>s' rs. currentSession (resumeSession w s st) = Some s'
      \<and> BulkMessageSession.status s' = running \<and> session_id s' = session_id s
      \<and> startTime s' = startTime s
      \<and> endTime s' = endTime s \<and> totalContacts s' = totalContacts s
      \<and> results s' = results s @ rs
      \<and> map contact rs = remainingContacts s (contacts st)
      \<and> pendingContacts s' = pendingContacts s - int (length rs)"
    using s' len eq by (simp add: sameSession_def)
  show "detached (resumeSession w s st) = detached st"
    using eq by (simp add: sendLoop_frame)
  show "dom (files (resumeSession w s st)) \<subseteq> insert (session_id s) (dom (files st))"
    using sendLoop_dom_files[of w "length ?rem" "delaySettings s" 0 ?rem ?st1] eq by simp
qed

lemma resumeSession_addresses:
  "\<exists>xs. addresses (journal (resumeSession w s st)) = addresses (journal st) @ xs
      \<and> subseq xs (map (\<lambda>c. formatPhoneNumber (phone c)) (remainingContacts s (contacts st)))"
proof (cases "remainingContacts s (contacts st) = []")
  case True
  then show ?thesis using resumeSession_empty(3)[OF True, of w] by simp
next
  case False
  let ?s1 = "s\<lparr>BulkMessageSession.status := running\<rparr>"
  let ?st1 = "st\<lparr>currentSession := Some ?s1\<rparr>"
  let ?rem = "remainingContacts s (contacts st)"
  have rem: "remainingContacts ?s1 (contacts st) = ?rem"
    by (simp add: remainingContacts_def)
  have eq: "resumeSession w s st = sendLoop w (length ?rem) (delaySettings s) 0 ?rem ?st1"
    using rem False by (simp add: resumeSession_def Let_def sendBulkMessagesInternal_def)
  from sendLoop_addresses[of w "length ?rem" "delaySettings s" 0 ?rem ?st1] eq
  show ?thesis by simp
qed

text \<open>
  The interrupted run leaves \<open>interruptedSession\<close> in the file of its session and no
  current session.
\<close>

lemma interruptedRun_state:
  "files (interruptedRun c cs) ''session-1'' = Some (interruptedSession c (1 + int (length cs)))
   \<and> currentSession (interruptedRun c cs) = None
   \<and> contacts (interruptedRun c cs) = c # cs
   \<and> messageTemplates (interruptedRun c cs) = [welcomeTemplate]"
  by (simp add: interruptedRun_def interruptedSession_def stamp_def Let_def createNewSession_def
      saveSessionResults_def tick_def processContact_def trySend_def pickTemplate_def
      calmWorld_def sender_def welcomeTemplate_def updateSessionProgress_def delayAfterSend_def
      gracefulShutdown_def hasCurrentSession_def completeSession_def sleep_def)

text \<open>
  C4. The remaining contacts of a resume are exactly the loaded contacts whose phone
  string is the phone of no result of the persisted session, in the order of the contact
  list (so a contact with a failed result is not attempted again); the Messenger calls of
  the resume go, in order and at most once each, to remaining contacts only; and when no
  contact remains the session is finalised as completed at once: the current-session
  reference is dropped, the session object has status completed and an end time, and
  nothing is sent or waited.
\<close>

theorem C4_resume_plan:
  "set (remainingContacts s cs)
     = {c \<in> set cs. \<forall>r \<in> set (results s). phone (contact r) \<noteq> phone c}
   \<and> remainingContacts s cs
       = filter (\<lambda>c. phone c \<notin> (\<lambda>r. phone (contact r)) ` set (results s)) cs
   \<and> (\<exists>xs. addresses (journal (resumeSession w s st)) = addresses (journal st) @ xs
          \<and> subseq xs (map (\<lambda>c. formatPhoneNumber (phone c)) (remainingContacts s (contacts st))))
   \<and> (remainingContacts s (contacts st) = [] \<longrightarrow>
         currentSession (resumeSession w s st) = None
         \<and> detached (resumeSession w s st)
             = Some (s\<lparr>BulkMessageSession.status := final completed,
                      endTime := Some (dateNow w (ticks st))\<rparr>)
         \<and> journal (resumeSession w s st) = journal st)"
  using set_remainingContacts[of s cs] resumeSession_addresses[of w s st]
    resumeSession_empty(1,2,3)[of s st w]
  by (simp add: remainingContacts_def Let_def)

text \<open>
  Witness of C4: a persisted session with one result for Alice's phone, and a contact
  list whose two contacts both have that phone, so that no contact remains.
\<close>

theorem C4_resume_plan_witness:
  "results (interruptedSession alice 2) \<noteq> []
   \<and> remainingContacts (interruptedSession alice 2) (contacts (sender [alice, aliceAgain] readmeMessaging)) = []
   \<and> currentSession (resumeSession calmWorld (interruptedSession alice 2)
         (sender [alice, aliceAgain] readmeMessaging)) = None
   \<and> journal (resumeSession calmWorld (interruptedSession alice 2)
         (sender [alice, aliceAgain] readmeMessaging)) = []"
proof -
  have h: "remainingContacts (interruptedSession alice 2)
             (contacts (sender [alice, aliceAgain] readmeMessaging)) = []"
    by (simp add: remainingContacts_def interruptedSession_def sender_def alice_def
        aliceAgain_def person_def)
  have j: "journal (sender [alice, aliceAgain] readmeMessaging) = []"
    by (simp add: sender_def)
  show ?thesis
    using C4_resume_plan[of "interruptedSession alice 2" "[alice, aliceAgain]" calmWorld
        "sender [alice, aliceAgain] readmeMessaging"] h j
    by (simp add: interruptedSession_def)
qed

text \<open>
  C10. Contacts are matched by phone string only: when two distinct contacts of the
  list share a phone and some result of the persisted session records that phone, neither
  of them is among the remaining contacts, also the one that was never attempted itself.
\<close>

theorem C10_shared_phone_excluded:
  assumes "c1 \<in> set cs" "c2 \<in> set cs" "c1 \<noteq> c2" "phone c1 = phone c2"
    and "r \<in> set (results s)" "phone (contact r) = phone c1"
  shows "c1 \<notin> set (remainingContacts s cs) \<and> c2 \<notin> set (remainingContacts s cs)"
proof -
  have "phone c1 \<in> (\<lambda>r. phone (contact r)) ` set (results s)"
    using assms(5,6) by (metis imageI)
  then show ?thesis
    using assms(4) by (simp add: remainingContacts_def Let_def)
qed

text \<open>
  Witness of C10: the only result is Alice's; her second entry with the same phone is
  excluded with her.
\<close>

theorem C10_shared_phone_excluded_witness:
  "alice \<noteq> aliceAgain \<and> phone alice = phone aliceAgain
   \<and> map contact (results (interruptedSession alice 2)) = [alice]
   \<and> alice \<notin> set (remainingContacts (interruptedSession alice 2) [alice, aliceAgain, bob])
   \<and> aliceAgain \<notin> set (remainingContacts (interruptedSession alice 2) [alice, aliceAgain, bob])"
proof -
  let ?r = "\<lparr>contact = alice, template = Some welcomeTemplate, status = outcome success,
                  timestamp = stamp, error = None, messageId = None\<rparr>"
  have 1: "alice \<in> set [alice, aliceAgain, bob]" "aliceAgain \<in> set [alice, aliceAgain, bob]"
    by simp_all
  have 2: "alice \<noteq> aliceAgain" by (simp add: alice_def aliceAgain_def person_def)
  have 3: "phone alice = phone aliceAgain" by (simp add: alice_def aliceAgain_def person_def)
  have 4: "?r \<in> set (results (interruptedSession alice 2))" by (simp add: interruptedSession_def)
  have 5: "phone (contact ?r) = phone alice" by simp
  show ?thesis
    using C10_shared_phone_excluded[OF 1 2 3 4 5] 2 3 by (simp add: interruptedSession_def)
qed

section \<open>Where the code departs from the specification\<close>

text \<open>
  C1. The code at the failing input: base range 3-8 s, rules every 5 messages 20-30 s and
  every 10 messages 30-60 s, in this order. In a run over twelve contacts in which every
  draw is the lower end of its range, the waits are the base delay after every message
  and, after messages 5 and 10, a second wait of 20 s. For any random source, after
  message 10 (index 9) of twelve the code waits a draw from the base range 3-8 and then a
  draw from 20-30, the range of the first matching rule of the array (every 5), never
  from 30-60. The README of the repository (src/unnamed/part_002, lines 437 and 887-894)
  documents the behaviour of the claim: larger \<^verbatim>\<open>n\<close> has priority, message 10 uses
  30-60 s, and the optional delay replaces the base delay.
\<close>

theorem C1_message_10_waits_base_then_first_rule:
  "waits (journal (sendBulkMessages calmWorld 3 8 (sender twelve readmeMessaging)))
     = [3, 3, 3, 3, 3, 20, 3, 3, 3, 3, 3, 20, 3]
   \<and> journal (delayAfterSend w 12 9
        \<lparr>minDelay = 3, maxDelay = 8,
         optionalDelays = [everyNMessages 5 20 30, everyNMessages 10 30 60]\<rparr> st)
     = journal st @ [Wait (randomInt (mathRandom w (ticks st)) 3 8),
                     Wait (randomInt (mathRandom w (Suc (ticks st))) 20 30)]"
proof
  show "waits (journal (sendBulkMessages calmWorld 3 8 (sender twelve readmeMessaging)))
     = [3, 3, 3, 3, 3, 20, 3, 3, 3, 3, 3, 20, 3]"
    by code_simp
  show "journal (delayAfterSend w 12 9
        \<lparr>minDelay = 3, maxDelay = 8,
         optionalDelays = [everyNMessages 5 20 30, everyNMessages 10 30 60]\<rparr> st)
     = journal st @ [Wait (randomInt (mathRandom w (ticks st)) 3 8),
                     Wait (randomInt (mathRandom w (Suc (ticks st))) 20 30)]"
    by (simp add: delayAfterSend_journal ruleMatches_def)
qed

text \<open>
  C5. The code at the failing input: a run over Alice and Bob is interrupted after
  Alice; the resume picks the interrupted session, sends to Bob, and the loop ends without
  an interruption. The session is then still the current session with status running and
  no contact pending, and so is its file: \<^verbatim>\<open>resumeSession\<close> never calls
  \<^verbatim>\<open>completeSession\<close> after its loop, as \<^verbatim>\<open>sendBulkMessages\<close> (line 988) and
  \<^verbatim>\<open>quickBulkSend\<close> (line 1101) do.
\<close>

theorem C5_resumed_run_stays_running:
  "addresses (journal (resumeInterruptedSession calmWorld (Some ''session-1'') (interruptedRun alice [bob])))
     = [''6281234567890@c.us'', ''6281234567891@c.us'']
   \<and> map_option (map contact \<circ> results) (currentSession (resumeInterruptedSession calmWorld (Some ''session-1'') (interruptedRun alice [bob])))
     = Some [alice, bob]
   \<and> map_option pendingContacts (currentSession (resumeInterruptedSession calmWorld (Some ''session-1'') (interruptedRun alice [bob])))
     = Some 0
   \<and> map_option BulkMessageSession.status (currentSession (resumeInterruptedSession calmWorld (Some ''session-1'') (interruptedRun alice [bob])))
     = Some running
   \<and> map_option BulkMessageSession.status (files (resumeInterruptedSession calmWorld (Some ''session-1'') (interruptedRun alice [bob])) ''session-1'')
     = Some running"
  by code_simp

text \<open>
  The other path of the same lines: when the loop finds the session interrupted it only
  returns, and the caller's next statement finalises the session as completed.
\<close>

lemma detected_interruption_is_completed:
  assumes "currentSession st = Some s" "BulkMessageSession.status s = final interrupted"
  shows "detached (completeSession w completed (sendBulkMessagesInternal w cs ds st))
           = Some (s\<lparr>BulkMessageSession.status := final completed,
                      endTime := Some (dateNow w (ticks st))\<rparr>)"
proof -
  have "interruptionDetected st"
    using assms by (simp add: interruptionDetected_def)
  then have "sendBulkMessagesInternal w cs ds st = st"
    by (simp add: sendBulkMessagesInternal_def sendLoop_interrupted)
  then show ?thesis
    using completeSession_some(2)[OF assms(1), of w completed] by simp
qed

text \<open>
  C9. The code at the failing input: the configured quick-bulk range is 6-2 (the maximum
  below the minimum). \<^verbatim>\<open>quickBulkSend\<close> creates the session with that range, sends
  to both contacts and finalises it; the session file exists. \<^verbatim>\<open>sendBulkMessages\<close>
  rejects such a range on lines 969-973 (lemma \<open>sendBulkMessages_rejects\<close> below).
\<close>

theorem C9_quickBulkSend_accepts_bad_range:
  "map_option BulkMessageSession.status
     (files (quickBulkSend calmWorld True
          (sender [alice, bob] (readmeMessaging\<lparr>quickBulkMinDelay := 6, quickBulkMaxDelay := 2\<rparr>))) ''session-1'') = Some (final completed)
   \<and> map_option (minDelay \<circ> delaySettings)
     (files (quickBulkSend calmWorld True
          (sender [alice, bob] (readmeMessaging\<lparr>quickBulkMinDelay := 6, quickBulkMaxDelay := 2\<rparr>))) ''session-1'') = Some 6
   \<and> map_option (maxDelay \<circ> delaySettings)
     (files (quickBulkSend calmWorld True
          (sender [alice, bob] (readmeMessaging\<lparr>quickBulkMinDelay := 6, quickBulkMaxDelay := 2\<rparr>))) ''session-1'') = Some 2
   \<and> addresses (journal (quickBulkSend calmWorld True
          (sender [alice, bob] (readmeMessaging\<lparr>quickBulkMinDelay := 6, quickBulkMaxDelay := 2\<rparr>))))
     = [''6281234567890@c.us'', ''6281234567891@c.us'']"
  by code_simp

text \<open>
  Counterexample to C6 as stated: the contact list holds Alice twice under one phone; the
  run is interrupted after the first entry; the resume finds no remaining contact and
  finalises the session as completed with one of its two contacts still pending.
\<close>

theorem C6_resume_completes_with_pending:
  "map_option BulkMessageSession.status (detached (resumeInterruptedSession calmWorld (Some ''session-1'') (interruptedRun alice [aliceAgain])))
     = Some (final completed)
   \<and> map_option totalContacts (detached (resumeInterruptedSession calmWorld (Some ''session-1'') (interruptedRun alice [aliceAgain])))
     = Some 2
   \<and> map_option (length \<circ> results) (detached (resumeInterruptedSession calmWorld (Some ''session-1'') (interruptedRun alice [aliceAgain])))
     = Some 1
   \<and> map_option pendingContacts (detached (resumeInterruptedSession calmWorld (Some ''session-1'') (interruptedRun alice [aliceAgain])))
     = Some 1
   \<and> map_option pendingContacts (files (resumeInterruptedSession calmWorld (Some ''session-1'') (interruptedRun alice [aliceAgain])) ''session-1'')
     = Some 1"
  by code_simp

text \<open>
  Counterexample to C7 as stated: the session of the interrupted run is persisted with
  status interrupted; after the resume the current session has the same id and status
  running, and the file of that id holds a running session.
\<close>

theorem C7_resume_reopens_same_session:
  "map_option BulkMessageSession.status (files (interruptedRun alice [bob]) ''session-1'')
     = Some (final interrupted)
   \<and> map_option session_id (currentSession (resumeInterruptedSession calmWorld (Some ''session-1'') (interruptedRun alice [bob])))
     = Some ''session-1''
   \<and> map_option BulkMessageSession.status (currentSession (resumeInterruptedSession calmWorld (Some ''session-1'') (interruptedRun alice [bob])))
     = Some running
   \<and> map_option BulkMessageSession.status (files (resumeInterruptedSession calmWorld (Some ''session-1'') (interruptedRun alice [bob])) ''session-1'')
     = Some running"
  by code_simp

text \<open>
  Counterexample to C8 as stated: the Messenger rejects Alice's address; the send to her
  fails, Bob remains, and the driver goes on to Bob without any wait.
\<close>

theorem C8_no_wait_after_failed_send:
  "addresses (journal (sendBulkMessages (blockingWorld ''6281234567890@c.us'') 3 8
          (sender [alice, bob] readmeMessaging)))
     = [''6281234567890@c.us'', ''6281234567891@c.us'']
   \<and> map_option (map BulkMessageResult.status \<circ> results) (detached (sendBulkMessages (blockingWorld ''6281234567890@c.us'') 3 8
          (sender [alice, bob] readmeMessaging)))
     = Some [outcome failed, outcome success]
   \<and> map_option (map error \<circ> results) (detached (sendBulkMessages (blockingWorld ''6281234567890@c.us'') 3 8
          (sender [alice, bob] readmeMessaging)))
     = Some [Some ''blocked'', None]
   \<and> waits (journal (sendBulkMessages (blockingWorld ''6281234567890@c.us'') 3 8
          (sender [alice, bob] readmeMessaging))) = []"
  by code_simp

section \<open>What the code guarantees instead\<close>

text \<open>
  A draw lies in its range when \<^verbatim>\<open>Math.random()\<close> returned a number of [0, 1) and the
  range is not empty.
\<close>

lemma randomInt_range:
  assumes "0 \<le> u" "u < 1" "mn \<le> mx"
  shows "mn \<le> randomInt u mn mx \<and> randomInt u mn mx \<le> mx"
proof -
  have k: "0 < real_of_int (mx - mn + 1)" using assms(3) by simp
  have lo: "0 \<le> u * real_of_int (mx - mn + 1)" using assms(1) k by simp
  have hi: "u * real_of_int (mx - mn + 1) < real_of_int (mx - mn + 1)"
    using assms(2) k by simp
  have "0 \<le> \<lfloor>u * real_of_int (mx - mn + 1)\<rfloor>"
    using lo by (rule iffD2[OF zero_le_floor])
  moreover have "\<lfloor>u * real_of_int (mx - mn + 1)\<rfloor> < mx - mn + 1"
    using hi by (rule iffD2[OF floor_less_iff])
  ultimately show ?thesis by (simp add: randomInt_def)
qed

text \<open>
  Both fresh entry points return at once, with the sender unchanged, on the inputs they
  check; \<^verbatim>\<open>quickBulkSend\<close> does not check the delay range.
\<close>

lemma sendBulkMessages_rejects:
  "contacts st = [] \<or> messageTemplates st = [] \<or> maxD \<le> minD \<Longrightarrow>
     sendBulkMessages w minD maxD st = st"
  by (auto simp: sendBulkMessages_def)

lemma quickBulkSend_rejects:
  "contacts st = [] \<or> messageTemplates st = [] \<or> \<not> confirm \<Longrightarrow>
     quickBulkSend w confirm st = st"
  by (auto simp: quickBulkSend_def)

lemma sendBulkMessages_completed:
  assumes "contacts st \<noteq> []" "messageTemplates st \<noteq> []" "minD < maxD"
  shows "\<exists>s. detached (sendBulkMessages w minD maxD st) = Some s
       \<and> BulkMessageSession.status s = final completed \<and> pendingContacts s = 0
       \<and> endTime s \<noteq> None \<and> totalContacts s = int (length (contacts st))
       \<and> map contact (results s) = contacts st \<and> countersConsistent s"
  using assms freshRun_completed[of w "contacts st"
      "\<lparr>minDelay = minD, maxDelay = maxD, optionalDelays = Messaging.optionalDelays (messaging st)\<rparr>" st]
  by (simp add: sendBulkMessages_def Let_def)

lemma quickBulkSend_completed:
  assumes "contacts st \<noteq> []" "messageTemplates st \<noteq> []"
  shows "\<exists>s. detached (quickBulkSend w True st) = Some s
       \<and> BulkMessageSession.status s = final completed \<and> pendingContacts s = 0
       \<and> endTime s \<noteq> None \<and> totalContacts s = int (length (contacts st))
       \<and> map contact (results s) = contacts st \<and> countersConsistent s"
  using assms freshRun_completed[of w "contacts st"
      "\<lparr>minDelay = quickBulkMinDelay (messaging st), maxDelay = quickBulkMaxDelay (messaging st),
        optionalDelays = Messaging.optionalDelays (messaging st)\<rparr>" st]
  by (simp add: quickBulkSend_def Let_def)

lemma gracefulShutdown_running:
  assumes "currentSession st = Some r" "BulkMessageSession.status r = running"
  shows "detached (gracefulShutdown w st)
           = Some (r\<lparr>BulkMessageSession.status := final interrupted,
                      endTime := Some (dateNow w (ticks st))\<rparr>)"
  using assms completeSession_some(2)[OF assms(1), of w interrupted]
  by (simp add: gracefulShutdown_def hasCurrentSession_def)

text \<open>
  C6, as amended. A session finalised as completed by a fresh run (\<^verbatim>\<open>sendBulkMessages\<close>
  with accepted input, or a confirmed \<^verbatim>\<open>quickBulkSend\<close>) has no pending contact. A
  session finalised as completed by the resume whose remaining set is empty keeps the
  pending counter of the persisted session, whatever it is. A session finalised as
  interrupted by the signal handler keeps its pending counter, which may be positive.
\<close>

theorem C6_pending_at_finalisation:
  "(contacts st \<noteq> [] \<and> messageTemplates st \<noteq> [] \<and> minD < maxD \<longrightarrow>
      (\<exists>s. detached (sendBulkMessages w minD maxD st) = Some s
         \<and> BulkMessageSession.status s = final completed \<and> pendingContacts s = 0))
   \<and> (contacts st \<noteq> [] \<and> messageTemplates st \<noteq> [] \<longrightarrow>
      (\<exists>s. detached (quickBulkSend w True st) = Some s
         \<and> BulkMessageSession.status s = final completed \<and> pendingContacts s = 0))
   \<and> (remainingContacts p (contacts st) = [] \<longrightarrow>
      (\<exists>s. detached (resumeSession w p st) = Some s
         \<and> BulkMessageSession.status s = final completed
         \<and> pendingContacts s = pendingContacts p))
   \<and> (currentSession st = Some r \<and> BulkMessageSession.status r = running \<longrightarrow>
      (\<exists>s. detached (gracefulShutdown w st) = Some s
         \<and> BulkMessageSession.status s = final interrupted
         \<and> pendingContacts s = pendingContacts r))"
proof (intro conjI impI)
  assume "contacts st \<noteq> [] \<and> messageTemplates st \<noteq> [] \<and> minD < maxD"
  then show "\<exists>s. detached (sendBulkMessages w minD maxD st) = Some s
         \<and> BulkMessageSession.status s = final completed \<and> pendingContacts s = 0"
    using sendBulkMessages_completed[of st minD maxD w] by blast
next
  assume "contacts st \<noteq> [] \<and> messageTemplates st \<noteq> []"
  then show "\<exists>s. detached (quickBulkSend w True st) = Some s
         \<and> BulkMessageSession.status s = final completed \<and> pendingContacts s = 0"
    using quickBulkSend_completed[of st w] by blast
next
  assume "remainingContacts p (contacts st) = []"
  then show "\<exists>s. detached (resumeSession w p st) = Some s
         \<and> BulkMessageSession.status s = final completed
         \<and> pendingContacts s = pendingContacts p"
    using resumeSession_empty(2)[of p st w] by simp
next
  assume "currentSession st = Some r \<and> BulkMessageSession.status r = running"
  then show "\<exists>s. detached (gracefulShutdown w st) = Some s
         \<and> BulkMessageSession.status s = final interrupted
         \<and> pendingContacts s = pendingContacts r"
    using gracefulShutdown_running[of st r w] by simp
qed

text \<open>
  Witness of C6: a fresh run and a quick run over Alice and Bob; the resume of the session
  interrupted after Alice when the contact list holds her phone twice (one contact stays
  pending); the signal handler on a session just created for two contacts.
\<close>

theorem C6_pending_at_finalisation_witness:
  "(\<exists>s. detached (sendBulkMessages calmWorld 3 8 (sender [alice, bob] readmeMessaging)) = Some s
        \<and> BulkMessageSession.status s = final completed \<and> pendingContacts s = 0)
   \<and> (\<exists>s. detached (quickBulkSend calmWorld True (sender [alice, bob] readmeMessaging)) = Some s
        \<and> BulkMessageSession.status s = final completed \<and> pendingContacts s = 0)
   \<and> (\<exists>s. detached (resumeSession calmWorld (interruptedSession alice 2)
                 (sender [alice, aliceAgain] readmeMessaging)) = Some s
        \<and> BulkMessageSession.status s = final completed \<and> pendingContacts s = 1)
   \<and> (\<exists>s. detached (gracefulShutdown calmWorld
                 (createNewSession calmWorld 2 \<lparr>minDelay = 3, maxDelay = 8, optionalDelays = []\<rparr>
                    (sender [alice, bob] readmeMessaging))) = Some s
        \<and> BulkMessageSession.status s = final interrupted \<and> pendingContacts s = 2)"
proof -
  let ?st = "sender [alice, bob] readmeMessaging"
  let ?st2 = "sender [alice, aliceAgain] readmeMessaging"
  let ?p = "interruptedSession alice 2"
  let ?ds = "\<lparr>minDelay = 3, maxDelay = 8, optionalDelays = []\<rparr>"
  let ?st3 = "createNewSession calmWorld 2 ?ds ?st"
  let ?r = "\<lparr>session_id = newId calmWorld (ticks ?st), startTime = dateNow calmWorld (Suc (ticks ?st)),
           endTime = None, totalContacts = 2, completedContacts = 0, failedContacts = 0,
           pendingContacts = 2, results = [], status = running, delaySettings = ?ds\<rparr>"
  have h1: "contacts ?st \<noteq> [] \<and> messageTemplates ?st \<noteq> [] \<and> (3::int) < 8"
    by (simp add: sender_def)
  have h2: "contacts ?st \<noteq> [] \<and> messageTemplates ?st \<noteq> []"
    by (simp add: sender_def)
  have h3: "remainingContacts ?p (contacts ?st2) = []"
    by (simp add: remainingContacts_def interruptedSession_def sender_def alice_def
        aliceAgain_def person_def)
  have h4: "currentSession ?st3 = Some ?r \<and> BulkMessageSession.status ?r = running"
    by (simp add: currentSession_create)
  have p3: "pendingContacts ?p = 1" by (simp add: interruptedSession_def)
  have p4: "pendingContacts ?r = 2" by simp
  show ?thesis
    using C6_pending_at_finalisation[of ?st 3 8 calmWorld ?p ?r]
      C6_pending_at_finalisation[of ?st2 3 8 calmWorld ?p ?r]
      C6_pending_at_finalisation[of ?st3 3 8 calmWorld ?p ?r]
      h1 h2 h3 h4 p3 p4
    by simp
qed

text \<open>
  C7, as amended. Recording an outcome leaves the status of the current session as it
  is; \<^verbatim>\<open>completeSession\<close> gives the current session the terminal status it is called
  with, sets the end time and drops the reference. \<^verbatim>\<open>resumeSession\<close> makes the session
  it is given the current session again: afterwards that session, with the id and start
  time it had and with its earlier results kept, is either current with status running
  or was finalised as completed, and no file of another session id has appeared. A
  persisted session whose status is not interrupted (a completed one, for instance) is not
  on offer in \<^verbatim>\<open>resumeInterruptedSession\<close>, which leaves the sender as it is.
\<close>

theorem C7_status_transitions:
  "(currentSession st = Some s \<longrightarrow>
      (\<exists>s'. currentSession (updateSessionProgress w c t oc e m st) = Some s'
         \<and> BulkMessageSession.status s' = BulkMessageSession.status s)
      \<and> currentSession (completeSession w fs st) = None
      \<and> detached (completeSession w fs st)
          = Some (s\<lparr>BulkMessageSession.status := final fs, endTime := Some (dateNow w (ticks st))\<rparr>))
   \<and> (\<exists>s'. (currentSession (resumeSession w p st) = Some s'
               \<and> BulkMessageSession.status s' = running
             \<or> currentSession (resumeSession w p st) = None
               \<and> detached (resumeSession w p st) = Some s'
               \<and> BulkMessageSession.status s' = final completed)
          \<and> session_id s' = session_id p \<and> startTime s' = startTime p
          \<and> prefix (results p) (results s'))
   \<and> dom (files (resumeSession w p st)) \<subseteq> insert (session_id p) (dom (files st))
   \<and> (files st sid = Some q \<and> BulkMessageSession.status q \<noteq> final interrupted \<longrightarrow>
        resumeInterruptedSession w (Some sid) st = st)"
proof (intro conjI impI)
  assume cur: "currentSession st = Some s"
  show "\<exists>s'. currentSession (updateSessionProgress w c t oc e m st) = Some s'
         \<and> BulkMessageSession.status s' = BulkMessageSession.status s"
    using update_current[OF cur, of w c t oc e m] by blast
  show "currentSession (completeSession w fs st) = None"
    by (rule completeSession_some(1)[OF cur])
  show "detached (completeSession w fs st)
          = Some (s\<lparr>BulkMessageSession.status := final fs, endTime := Some (dateNow w (ticks st))\<rparr>)"
    by (rule completeSession_some(2)[OF cur])
next
  show "\<exists>s'. (currentSession (resumeSession w p st) = Some s'
               \<and> BulkMessageSession.status s' = running
             \<or> currentSession (resumeSession w p st) = None
               \<and> detached (resumeSession w p st) = Some s'
               \<and> BulkMessageSession.status s' = final completed)
          \<and> session_id s' = session_id p \<and> startTime s' = startTime p
          \<and> prefix (results p) (results s')"
  proof (cases "remainingContacts p (contacts st) = []")
    case True
    show ?thesis
      using resumeSession_empty(1,2)[OF True, of w] by simp
  next
    case False
    from resumeSession_nonempty(1)[OF False, of w]
    obtain s' rs where "currentSession (resumeSession w p st) = Some s'"
      "BulkMessageSession.status s' = running" "session_id s' = session_id p"
      "startTime s' = startTime p" "results s' = results p @ rs"
      by blast
    then show ?thesis by auto
  qed
next
  show "dom (files (resumeSession w p st)) \<subseteq> insert (session_id p) (dom (files st))"
  proof (cases "remainingContacts p (contacts st) = []")
    case True
    then show ?thesis by (rule resumeSession_empty(4))
  next
    case False
    then show ?thesis by (rule resumeSession_nonempty(3))
  qed
next
  assume "files st sid = Some q \<and> BulkMessageSession.status q \<noteq> final interrupted"
  then show "resumeInterruptedSession w (Some sid) st = st"
    by (simp add: resumeInterruptedSession_def)
qed

text \<open>
  Witness of C7: a session just created is current and running; an outcome recorded on it
  leaves it running; completing it drops it; the resume of the session interrupted after
  Alice, with Bob remaining, leaves that session current and running under its id; the
  running session in the file of the session just created cannot be picked for a resume.
\<close>

theorem C7_status_transitions_witness:
  "(\<exists>s. currentSession (createNewSession calmWorld 2 \<lparr>minDelay = 3, maxDelay = 8, optionalDelays = []\<rparr>
              (sender [alice, bob] readmeMessaging)) = Some s
        \<and> BulkMessageSession.status s = running)
   \<and> (\<exists>s'. currentSession (updateSessionProgress calmWorld alice (Some welcomeTemplate) success None None
              (createNewSession calmWorld 2 \<lparr>minDelay = 3, maxDelay = 8, optionalDelays = []\<rparr>
                 (sender [alice, bob] readmeMessaging))) = Some s'
        \<and> BulkMessageSession.status s' = running)
   \<and> currentSession (completeSession calmWorld interrupted
          (createNewSession calmWorld 2 \<lparr>minDelay = 3, maxDelay = 8, optionalDelays = []\<rparr>
             (sender [alice, bob] readmeMessaging))) = None
   \<and> (\<exists>s'. currentSession (resumeSession calmWorld (interruptedSession alice 2)
                (sender [alice, bob] readmeMessaging)) = Some s'
          \<and> BulkMessageSession.status s' = running \<and> session_id s' = ''session-1'')
   \<and> resumeInterruptedSession calmWorld (Some ''session-1'')
         (createNewSession calmWorld 2 \<lparr>minDelay = 3, maxDelay = 8, optionalDelays = []\<rparr>
            (sender [alice, bob] readmeMessaging))
       = createNewSession calmWorld 2 \<lparr>minDelay = 3, maxDelay = 8, optionalDelays = []\<rparr>
            (sender [alice, bob] readmeMessaging)"
proof -
  let ?st = "sender [alice, bob] readmeMessaging"
  let ?p = "interruptedSession alice 2"
  let ?ds = "\<lparr>minDelay = 3, maxDelay = 8, optionalDelays = []\<rparr>"
  let ?st3 = "createNewSession calmWorld 2 ?ds ?st"
  let ?r = "\<lparr>session_id = newId calmWorld (ticks ?st), startTime = dateNow calmWorld (Suc (ticks ?st)),
           endTime = None, totalContacts = 2, completedContacts = 0, failedContacts = 0,
           pendingContacts = 2, results = [], status = running, delaySettings = ?ds\<rparr>"
  have h: "currentSession ?st3 = Some ?r" by (simp add: currentSession_create)
  have r: "BulkMessageSession.status ?r = running" by simp
  have rem: "remainingContacts ?p (contacts ?st) \<noteq> []"
    by (simp add: remainingContacts_def interruptedSession_def sender_def alice_def
        bob_def person_def)
  have cur: "currentSession (resumeSession calmWorld ?p ?st) \<noteq> None"
    using resumeSession_nonempty(1)[OF rem, of calmWorld] by auto
  have sid: "session_id ?p = ''session-1''" by (simp add: interruptedSession_def)
  have f: "files ?st3 ''session-1'' = Some ?r"
    by (simp add: createNewSession_def saveSessionResults_def tick_def calmWorld_def sender_def
        Let_def)
  from C7_status_transitions[of ?st3 ?r calmWorld alice "Some welcomeTemplate" success None None
      interrupted ?p "''session-1''" ?r] f r
  have d: "resumeInterruptedSession calmWorld (Some ''session-1'') ?st3 = ?st3"
    by simp
  from C7_status_transitions[of ?st3 ?r calmWorld alice "Some welcomeTemplate" success None None
      interrupted ?p] h r
  have a: "(\<exists>s'. currentSession (updateSessionProgress calmWorld alice (Some welcomeTemplate) success
                 None None ?st3) = Some s' \<and> BulkMessageSession.status s' = running)"
    and b: "currentSession (completeSession calmWorld interrupted ?st3) = None"
    by simp_all
  from C7_status_transitions[of ?st ?r calmWorld alice "Some welcomeTemplate" success None None
      interrupted ?p] cur sid
  have c: "\<exists>s'. currentSession (resumeSession calmWorld ?p ?st) = Some s'
          \<and> BulkMessageSession.status s' = running \<and> session_id s' = ''session-1''"
    by auto
  show ?thesis using h r a b c d by simp
qed

text \<open>
  The loop over a list that is cut in two is the loop over the second part, started where
  the loop over the first part ended; and the waits of one pass of the loop body, exactly.
\<close>

lemma sendLoop_append:
  "sendLoop w len ds i (xs @ ys) st
     = sendLoop w len ds (i + length xs) ys (sendLoop w len ds i xs st)"
proof (induction xs arbitrary: i st)
  case Nil
  then show ?case by simp
next
  case (Cons x xs)
  show ?case
  proof (cases "interruptionDetected st")
    case True
    then show ?thesis by (simp add: sendLoop_interrupted)
  next
    case False
    then show ?thesis using Cons.IH[of "Suc i"] by simp
  qed
qed

lemma processContact_waits_exact:
  "waits (journal (processContact w len ds i c st)) =
     waits (journal st) @
       (if fst (snd (trySend w c st)) = None \<and> int i < int len - 1
        then randomInt (mathRandom w (ticks (updateSessionProgress w c (fst (trySend w c st))
                 success None None (snd (snd (trySend w c st))))))
               (minDelay ds) (maxDelay ds) #
             (case find (ruleMatches i) (optionalDelays ds) of
                Some (everyNMessages n mn mx) \<Rightarrow>
                  [randomInt (mathRandom w (Suc (ticks (updateSessionProgress w c
                      (fst (trySend w c st)) success None None (snd (snd (trySend w c st)))))))
                     mn mx]
              | _ \<Rightarrow> [])
        else [])"
proof -
  obtain t e st1 where ts: "trySend w c st = (t, e, st1)"
    by (cases "trySend w c st") auto
  note fr = trySend_frame[OF ts]
  show ?thesis
  proof (cases e)
    case None
    then show ?thesis
      using ts fr
      by (auto simp: processContact_def delayAfterSend_journal
               split: option.splits DelayRule.splits)
  next
    case (Some msg)
    then show ?thesis
      using ts fr by (simp add: processContact_def)
  qed
qed

text \<open>
  C8, as amended. A run of \<^verbatim>\<open>sendBulkMessagesInternal\<close> over the contacts
  \<open>pre @ c # post\<close> reaches \<open>c\<close> through the loop over \<open>pre\<close> and, unless it finds
  the session interrupted there, runs the loop body for \<open>c\<close> at index \<open>length pre\<close> of
  the whole batch and goes on with \<open>post\<close>. That pass of the body, from any state, adds
  these waits and no others: none when the send attempt threw an error, none when \<open>c\<close>
  is the last contact (\<open>post\<close> is empty), and otherwise a draw from the base range
  \<open>minDelay\<close> to \<open>maxDelay\<close> of the delay settings with the next value of
  \<^verbatim>\<open>Math.random()\<close>. At an index that no rule matches this draw is the whole delay.
  At an index that a rule matches, the code as it stands then waits a draw from the
  range of the first matching rule; that case is what C1 is about.
\<close>

theorem C8_wait_only_after_success:
  "sendBulkMessagesInternal w (pre @ c # post) ds st =
     (if interruptionDetected (sendLoop w (length (pre @ c # post)) ds 0 pre st)
      then sendLoop w (length (pre @ c # post)) ds 0 pre st
      else sendLoop w (length (pre @ c # post)) ds (Suc (length pre)) post
             (processContact w (length (pre @ c # post)) ds (length pre) c
                (sendLoop w (length (pre @ c # post)) ds 0 pre st)))
   \<and> waits (journal (processContact w (length (pre @ c # post)) ds (length pre) c st0)) =
       waits (journal st0) @
         (if fst (snd (trySend w c st0)) = None \<and> post \<noteq> []
          then randomInt (mathRandom w (ticks (updateSessionProgress w c (fst (trySend w c st0))
                   success None None (snd (snd (trySend w c st0))))))
                 (minDelay ds) (maxDelay ds) #
               (case find (ruleMatches (length pre)) (optionalDelays ds) of
                  Some (everyNMessages n mn mx) \<Rightarrow>
                    [randomInt (mathRandom w (Suc (ticks (updateSessionProgress w c
                        (fst (trySend w c st0)) success None None (snd (snd (trySend w c st0)))))))
                       mn mx]
                | _ \<Rightarrow> [])
          else [])"
proof
  show "sendBulkMessagesInternal w (pre @ c # post) ds st =
     (if interruptionDetected (sendLoop w (length (pre @ c # post)) ds 0 pre st)
      then sendLoop w (length (pre @ c # post)) ds 0 pre st
      else sendLoop w (length (pre @ c # post)) ds (Suc (length pre)) post
             (processContact w (length (pre @ c # post)) ds (length pre) c
                (sendLoop w (length (pre @ c # post)) ds 0 pre st)))"
    by (simp add: sendBulkMessagesInternal_def sendLoop_append)
  have more: "(int (length pre) < int (length (pre @ c # post)) - 1) = (post \<noteq> [])"
    by auto
  show "waits (journal (processContact w (length (pre @ c # post)) ds (length pre) c st0)) =
       waits (journal st0) @
         (if fst (snd (trySend w c st0)) = None \<and> post \<noteq> []
          then randomInt (mathRandom w (ticks (updateSessionProgress w c (fst (trySend w c st0))
                   success None None (snd (snd (trySend w c st0))))))
                 (minDelay ds) (maxDelay ds) #
               (case find (ruleMatches (length pre)) (optionalDelays ds) of
                  Some (everyNMessages n mn mx) \<Rightarrow>
                    [randomInt (mathRandom w (Suc (ticks (updateSessionProgress w c
                        (fst (trySend w c st0)) success None None (snd (snd (trySend w c st0)))))))
                       mn mx]
                | _ \<Rightarrow> [])
          else [])"
    unfolding processContact_waits_exact more ..
qed

end
